theory Spec2Isabelle
  imports Main
begin

section \<open>JavaScript values\<close>

text \<open>
  The values the module handles: the primitives and plain objects. An object carries
  whether it is an instance of \<open>Error\<close> and its own properties. Numbers are the
  integer-valued ones (status codes, millisecond counts); promises and functions are not
  values of this model.
\<close>

datatype jsval =
    JUndefined
  | JNull
  | JBool bool
  | JNum int
  | JStr string
  | JObj bool "(string \<times> jsval) list"

text \<open>\<open>v == null\<close>: true of \<open>undefined\<close> and \<open>null\<close> only.\<close>

fun nullish :: "jsval \<Rightarrow> bool" where
  "nullish JUndefined = True"
| "nullish JNull = True"
| "nullish _ = False"

text \<open>The truthiness a condition \<open>v ? a : b\<close>, \<open>!v\<close> or \<open>v && w\<close> tests.\<close>

fun truthy :: "jsval \<Rightarrow> bool" where
  "truthy JUndefined = False"
| "truthy JNull = False"
| "truthy (JBool b) = b"
| "truthy (JNum n) = (n \<noteq> 0)"
| "truthy (JStr s) = (s \<noteq> [])"
| "truthy (JObj _ _) = True"

text \<open>\<open>v instanceof Error\<close>.\<close>

fun instanceof_Error :: "jsval \<Rightarrow> bool" where
  "instanceof_Error (JObj e _) = e"
| "instanceof_Error _ = False"

datatype error = Error string | TypeError string

text \<open>
  \<open>v.name\<close>: a TypeError on \<open>undefined\<close> and \<open>null\<close>, \<open>undefined\<close> on the other
  primitives and on an object without the property.
\<close>

fun get_prop :: "jsval \<Rightarrow> string \<Rightarrow> error + jsval" where
  "get_prop JUndefined name = Inl (TypeError ''Cannot read properties of undefined'')"
| "get_prop JNull name = Inl (TypeError ''Cannot read properties of null'')"
| "get_prop (JObj e fs) name =
     Inr (case map_of fs name of None \<Rightarrow> JUndefined | Some v \<Rightarrow> v)"
| "get_prop _ name = Inr JUndefined"

text \<open>\<open>args[i]\<close> on an array: \<open>undefined\<close> past the end.\<close>

definition index :: "jsval list \<Rightarrow> nat \<Rightarrow> jsval" where
  "index args i = (if i < length args then args ! i else JUndefined)"

text \<open>The decimal string of a non-negative integer, as a template literal prints it.\<close>

fun show_nat :: "nat \<Rightarrow> string" where
  "show_nat n =
     (if n < 10 then [''0123456789'' ! n]
      else show_nat (n div 10) @ [''0123456789'' ! (n mod 10)])"

declare show_nat.simps [simp del]

section \<open>Requests, responses and middleware\<close>

text \<open>The request's \<open>method\<close> is the field \<open>method_req\<close>.\<close>

record request =
  method_req :: string
  protocol :: string
  hostname :: string
  url :: string
  ip :: string

record response =
  statusCode :: nat
  headers :: "string \<rightharpoonup> string"
  body :: "string option"
  finished :: bool

text \<open>A fresh response: status 200, no header, nothing sent.\<close>

definition new_response :: response where
  "new_response = \<lparr>statusCode = 200, headers = Map.empty, body = None, finished = False\<rparr>"

text \<open>\<open>res.header(name, value)\<close>.\<close>

definition header :: "string \<Rightarrow> string \<Rightarrow> response \<Rightarrow> response" where
  "header name v res = res\<lparr>headers := (headers res)(name \<mapsto> v)\<rparr>"

text \<open>
  \<open>res.redirect(code, target)\<close> is the framework's method and a parameter of the model:
  what it writes (the status, the \<open>Location\<close> header it encodes the target into, a body
  that depends on the request) is the framework's own. It is given the request of the
  response, the status, the target and the response.
\<close>

type_synonym redirect_method = "request \<Rightarrow> nat \<Rightarrow> string \<Rightarrow> response \<Rightarrow> response"

text \<open>\<open>res.status(code)\<close> and \<open>res.send(text)\<close>.\<close>

definition status :: "nat \<Rightarrow> response \<Rightarrow> response" where
  "status code res = res\<lparr>statusCode := code\<rparr>"

definition send :: "string \<Rightarrow> response \<Rightarrow> response" where
  "send text res = res\<lparr>body := Some text, finished := True\<rparr>"

text \<open>What a middleware did with its continuation: called \<open>next()\<close>, or not.\<close>

datatype chain = Next | Ended

section \<open>createServer\<close>

text \<open>
  The middleware closure of \<open>useSecurityHeaders\<close>, with the variables it captures:
  \<open>isProd\<close>, \<open>host\<close> and \<open>maxAgeHsts\<close>; \<open>redirect\<close> is the framework's \<open>res.redirect\<close>.
\<close>

definition securityHeaders ::
  "redirect_method \<Rightarrow> jsval \<Rightarrow> string \<Rightarrow> nat \<Rightarrow> request \<Rightarrow> response
     \<Rightarrow> response \<times> chain" where
  "securityHeaders redirect isProd host maxAgeHsts req res =
     (if truthy isProd \<and> method_req req = ''GET'' \<and>
         (protocol req \<noteq> ''https'' \<or> hostname req \<noteq> host)
      then (redirect req 301 (''https://'' @ host @ url req) res, Ended)
      else
        (header ''X-Content-Type-Options'' ''nosniff''
           (header ''Strict-Transport-Security''
              (''max-age='' @ show_nat (maxAgeHsts div 1000) @ ''; includeSubDomains; preload'')
              res),
         Next))"

text \<open>A \<open>morgan(format, { immediate })\<close> logger: the format's name and the flag.\<close>

datatype logger = Morgan string bool

text \<open>
  The options object passed to \<open>rateLimit\<close>. \<open>max_opt\<close> and \<open>headers_opt\<close> are its
  \<open>max\<close> and \<open>headers\<close>; the \<open>handler\<close> closure is given by the \<open>rateLimitLogger\<close> it
  captures.
\<close>

record rate_limit_options =
  windowMs :: nat
  max_opt :: nat
  headers_opt :: bool
  handler :: logger

datatype middleware =
    SecurityHeaders jsval string nat
  | Logger logger
  | RateLimiter rate_limit_options

record application =
  settings :: "string \<rightharpoonup> jsval"
  stack :: "middleware list"

text \<open>
  \<open>http.createServer()\<close>: whether it listens (it is returned unstarted) and its
  \<open>'request'\<close> listeners.
\<close>

datatype http_server = HttpServer bool "application list"

record server =
  app :: application
  httpServer :: http_server

text \<open>
  The process-wide state the module writes: the \<open>globalThis.rollbar\<close> slot and the
  registry of named formats of the logging library.
\<close>

record rollbar_client =
  accessToken :: jsval
  captureUncaught :: bool
  captureUnhandledRejections :: bool
  checkIgnore_opt :: "jsval \<Rightarrow> jsval list \<Rightarrow> error + bool"

record globals =
  rollbar :: "rollbar_client option"
  morgan_formats :: "string \<rightharpoonup> string"

definition initial_globals :: globals where
  "initial_globals = \<lparr>rollbar = None, morgan_formats = Map.empty\<rparr>"

text \<open>\<open>express()\<close>, \<open>app.set\<close> and \<open>app.use\<close> (the framework's own defaults are left out).\<close>

definition express :: application where
  "express = \<lparr>settings = Map.empty, stack = []\<rparr>"

definition app_set :: "string \<Rightarrow> jsval \<Rightarrow> application \<Rightarrow> application" where
  "app_set name v a = a\<lparr>settings := (settings a)(name \<mapsto> v)\<rparr>"

definition app_use :: "middleware \<Rightarrow> application \<Rightarrow> application" where
  "app_use m a = a\<lparr>stack := stack a @ [m]\<rparr>"

definition maxAgeHsts :: "jsval \<Rightarrow> nat" where
  "maxAgeHsts isProd = (if truthy isProd then 365 * 24 * 60 * 60 * 1000 else 0)"

definition useExpressConfig :: "jsval \<Rightarrow> application \<Rightarrow> application" where
  "useExpressConfig isProd a =
     app_set ''x-powered-by'' (JBool False)
       (app_set ''json spaces'' (JNum (if truthy isProd then 0 else 2))
          (app_set ''trust proxy'' (JBool True) a))"

definition useSecurityHeaders :: "jsval \<Rightarrow> string \<Rightarrow> application \<Rightarrow> application" where
  "useSecurityHeaders isProd host a =
     app_use (SecurityHeaders isProd host (maxAgeHsts isProd)) a"

definition useLogger :: "jsval \<Rightarrow> application \<Rightarrow> application" where
  "useLogger isProd a =
     app_use (Logger (Morgan (if truthy isProd then ''combined'' else ''dev'')
                        (\<not> truthy isProd))) a"

definition rate_limit_format :: string where
  \<open>rate_limit_format = ''Blocked for too many requests - :remote-addr - :remote-user [:date[clf]] ":method :url HTTP/:http-version" :status :res[content-length] ":referrer" ":user-agent"''\<close>

definition useRateLimit ::
  "jsval \<Rightarrow> nat \<Rightarrow> application \<times> globals \<Rightarrow> application \<times> globals" where
  "useRateLimit isProd maxRequestsPerSecond ag =
     (if \<not> truthy isProd then ag
      else
        let (a, g) = ag;
            g' = g\<lparr>morgan_formats := (morgan_formats g)(''rate-limit'' \<mapsto> rate_limit_format)\<rparr>;
            rateLimitLogger = Morgan ''rate-limit'' (\<not> truthy isProd);
            rateLimiter = \<lparr>windowMs = 60 * 1000, max_opt = 60 * maxRequestsPerSecond,
                           headers_opt = False, handler = rateLimitLogger\<rparr>
        in (app_use (RateLimiter rateLimiter) a, g'))"

text \<open>
  \<open>createServer({ isProd, host, maxRequestsPerSecond = 5 })\<close>: an absent
  \<open>maxRequestsPerSecond\<close> is \<open>None\<close>. The result is the thrown error or the returned
  object, with the process-wide state after the call.
\<close>

definition createServer ::
  "jsval \<Rightarrow> string \<Rightarrow> nat option \<Rightarrow> globals \<Rightarrow> (error + server) \<times> globals" where
  "createServer isProd host maxRequestsPerSecond g =
     (if nullish isProd then (Inl (Error ''Missing `isProd` option''), g)
      else
        let m = (case maxRequestsPerSecond of None \<Rightarrow> 5 | Some n \<Rightarrow> n);
            (a, g') = useRateLimit isProd m
                        (useLogger isProd
                           (useSecurityHeaders isProd host
                              (useExpressConfig isProd express)), g)
        in (Inr \<lparr>app = a, httpServer = HttpServer False [a]\<rparr>, g'))"

section \<open>Handling a request\<close>

text \<open>
  What the loggers and the rate limiter keep between requests: the lines written (by
  format name), and the limiter's store: the current window and the hits of each source.
\<close>

record srv_state =
  log :: "string list"
  window :: nat
  hits :: "string \<Rightarrow> nat"

definition initial_state :: srv_state where
  "initial_state = \<lparr>log = [], window = 0, hits = (\<lambda>_. 0)\<rparr>"

fun run_logger :: "logger \<Rightarrow> srv_state \<Rightarrow> srv_state" where
  "run_logger (Morgan fmt immediate) st = st\<lparr>log := log st @ [fmt]\<rparr>"

text \<open>
  The \<open>handler\<close> closure of \<open>useRateLimit\<close>: logs through \<open>rateLimitLogger\<close>, answers 503
  with the fixed body, and does not call \<open>next\<close>.
\<close>

definition rateLimit_handler ::
  "logger \<Rightarrow> request \<Rightarrow> response \<Rightarrow> srv_state \<Rightarrow> response \<times> srv_state" where
  "rateLimit_handler rateLimitLogger req res st =
     (send ''Blocked for too many requests'' (status 503 res), run_logger rateLimitLogger st)"

text \<open>
  Modelled from the spec: the fixed-window rate-limiting middleware, which is an external
  library. It counts requests per source (the request's \<open>ip\<close>) within successive fixed
  windows of \<open>windowMs\<close> milliseconds and, once the count exceeds \<open>max\<close> within the
  current window, runs \<open>handler\<close> instead of continuing the chain; with \<open>headers\<close> on it
  exposes the counters as response headers. \<open>now\<close> is the arrival time in milliseconds.
\<close>

definition rateLimit ::
  "rate_limit_options \<Rightarrow> nat \<Rightarrow> request \<Rightarrow> response \<Rightarrow> srv_state
     \<Rightarrow> (response \<times> chain) \<times> srv_state" where
  "rateLimit opts now req res st =
     (let w = now div windowMs opts;
          st1 = (if w = window st then st else st\<lparr>window := w, hits := (\<lambda>_. 0)\<rparr>);
          n = hits st1 (ip req) + 1;
          st2 = st1\<lparr>hits := (hits st1)(ip req := n)\<rparr>;
          res1 = (if headers_opt opts
                  then header ''X-RateLimit-Remaining'' (show_nat (max_opt opts - n))
                         (header ''X-RateLimit-Limit'' (show_nat (max_opt opts)) res)
                  else res)
      in if max_opt opts < n
         then (let (res2, st3) = rateLimit_handler (handler opts) req res1 st2
               in ((res2, Ended), st3))
         else ((res1, Next), st2))"

fun run_middleware ::
  "redirect_method \<Rightarrow> middleware \<Rightarrow> nat \<Rightarrow> request \<Rightarrow> response \<Rightarrow> srv_state
     \<Rightarrow> (response \<times> chain) \<times> srv_state" where
  "run_middleware redirect (SecurityHeaders isProd host maxAge) now req res st =
     (securityHeaders redirect isProd host maxAge req res, st)"
| "run_middleware redirect (Logger l) now req res st = ((res, Next), run_logger l st)"
| "run_middleware redirect (RateLimiter opts) now req res st = rateLimit opts now req res st"

text \<open>
  The application runs its stack in order; a middleware that does not call \<open>next\<close> ends
  the chain. \<open>Next\<close> at the end of the stack hands over to whatever the caller attaches.
\<close>

fun handle ::
  "redirect_method \<Rightarrow> middleware list \<Rightarrow> nat \<Rightarrow> request \<Rightarrow> response \<Rightarrow> srv_state
     \<Rightarrow> (response \<times> chain) \<times> srv_state" where
  "handle redirect [] now req res st = ((res, Next), st)"
| "handle redirect (m # ms) now req res st =
     (case run_middleware redirect m now req res st of
        ((res', Next), st') \<Rightarrow> handle redirect ms now req res' st'
      | ((res', Ended), st') \<Rightarrow> ((res', Ended), st'))"

text \<open>
  A run of requests, each with its arrival time and a fresh response: the state the
  application is left in.
\<close>

fun serve ::
  "redirect_method \<Rightarrow> middleware list \<Rightarrow> (nat \<times> request) list \<Rightarrow> srv_state
     \<Rightarrow> srv_state" where
  "serve redirect ms [] st = st"
| "serve redirect ms ((now, req) # rs) st =
     serve redirect ms rs (snd (handle redirect ms now req new_response st))"

section \<open>createRollbar and getRollbarHandler\<close>

text \<open>
  The \<open>checkIgnore\<close> closure. \<open>err.status\<close> is read only when \<open>isUncaught\<close> is falsy,
  and the read throws on an absent \<open>err\<close>; \<open>===\<close> compares without conversion.
\<close>

definition checkIgnore :: "jsval \<Rightarrow> jsval list \<Rightarrow> error + bool" where
  "checkIgnore isUncaught args =
     (let err = index args 0
      in if truthy isUncaught then Inr False
         else (case get_prop err ''status'' of
                 Inl e \<Rightarrow> Inl e
               | Inr s \<Rightarrow>
                   if s = JNum 400 then Inr True
                   else if s = JNum 403 then Inr True
                   else if s = JNum 404 then Inr True
                   else if s = JNum 412 then Inr True
                   else if s = JNum 416 then Inr True
                   else Inr False))"

text \<open>
  \<open>createRollbar({ accessToken, isProd })\<close>: the thrown error or the (absent) return
  value, with the process-wide state after the call.
\<close>

definition createRollbar :: "jsval \<Rightarrow> jsval \<Rightarrow> globals \<Rightarrow> (error + unit) \<times> globals" where
  "createRollbar accessTok isProd g =
     (if nullish isProd then (Inl (Error ''Missing `isProd` option''), g)
      else if \<not> truthy isProd then (Inr (), g)
      else (Inr (),
            g\<lparr>rollbar := Some \<lparr>accessToken = accessTok, captureUncaught = True,
                                captureUnhandledRejections = True,
                                checkIgnore_opt = checkIgnore\<rparr>\<rparr>))"

text \<open>
  \<open>getRollbarHandler()\<close>. \<open>errorHandler\<close> is the client's method, which belongs to the
  reporting library. The result is a middleware over any state \<open>'s\<close> it could touch.
\<close>

definition getRollbarHandler ::
  "(rollbar_client \<Rightarrow> request \<Rightarrow> response \<Rightarrow> 's \<Rightarrow> (response \<times> chain) \<times> 's) \<Rightarrow> globals
     \<Rightarrow> request \<Rightarrow> response \<Rightarrow> 's \<Rightarrow> (response \<times> chain) \<times> 's" where
  "getRollbarHandler errorHandler g =
     (case rollbar g of
        Some r \<Rightarrow> errorHandler r
      | None \<Rightarrow> (\<lambda>req res s. ((res, Next), s)))"

section \<open>serveStatic\<close>

text \<open>
  \<open>express.static(root, options)\<close> is the framework's function and a parameter of the
  model: it returns a middleware or throws (an empty root path is a TypeError of its
  own). A middleware it returns is given by the arguments it was built from.
\<close>

datatype static_middleware = Static string "string \<rightharpoonup> jsval"

definition maxAgeStatic :: "jsval \<Rightarrow> nat" where
  "maxAgeStatic isProd = (if truthy isProd then 365 * 24 * 60 * 60 * 1000 else 0)"

text \<open>
  \<open>serveStatic(path, { isProd, ...opts })\<close>: the second argument is one object, from
  which \<open>isProd\<close> is taken out and the rest is \<open>opts\<close>. In the object literal
  \<open>{ maxAge: maxAgeStatic, ...opts }\<close> the properties of \<open>opts\<close> come last and win.
\<close>

definition serveStatic ::
  "(string \<Rightarrow> (string \<rightharpoonup> jsval) \<Rightarrow> error + 'm) \<Rightarrow> string \<Rightarrow> (string \<rightharpoonup> jsval)
     \<Rightarrow> error + 'm" where
  "serveStatic express_static path options =
     (let isProd = (case options ''isProd'' of None \<Rightarrow> JUndefined | Some v \<Rightarrow> v);
          opts = options(''isProd'' := None)
      in if nullish isProd then Inl (Error ''Missing `isProd` option'')
         else express_static path ([''maxAge'' \<mapsto> JNum (int (maxAgeStatic isProd))] ++ opts))"

section \<open>runMiddleware\<close>

datatype promise = Pending | Fulfilled jsval | Rejected jsval

text \<open>Settling is one-shot: \<open>resolve\<close> and \<open>reject\<close> do nothing to a settled promise.\<close>

fun resolve :: "jsval \<Rightarrow> promise \<Rightarrow> promise" where
  "resolve v Pending = Fulfilled v"
| "resolve v p = p"

fun reject :: "jsval \<Rightarrow> promise \<Rightarrow> promise" where
  "reject v Pending = Rejected v"
| "reject v p = p"

text \<open>
  What a callback-style middleware \<open>fn\<close> does with its completion callback, in order:
  it calls it with a value (\<open>undefined\<close> when called with none), or an exception escapes
  it, which ends it. The empty list is a middleware that never calls back.
\<close>

datatype action = Call jsval | Throw jsval

text \<open>
  The promise executor: each call of the callback rejects on an \<open>Error\<close> instance and
  resolves otherwise; an exception escaping \<open>fn\<close> rejects.
\<close>

fun run_actions :: "action list \<Rightarrow> promise \<Rightarrow> promise" where
  "run_actions [] p = p"
| "run_actions (Call result # as) p =
     run_actions as (if instanceof_Error result then reject result p else resolve result p)"
| "run_actions (Throw e # as) p = reject e p"

definition runMiddleware ::
  "request \<Rightarrow> response \<Rightarrow> (request \<Rightarrow> response \<Rightarrow> action list) \<Rightarrow> promise" where
  "runMiddleware req res fn = run_actions (fn req res) Pending"

section \<open>Properties of createServer\<close>

text \<open>What \<open>createServer\<close> returns when \<open>isProd\<close> is given: the settings and the stack.\<close>

lemma createServer_result:
  assumes "\<not> nullish isProd"
  shows "\<exists>srv g'. createServer isProd H mo g = (Inr srv, g') \<and>
     settings (app srv) = [''trust proxy'' \<mapsto> JBool True,
                           ''json spaces'' \<mapsto> JNum (if truthy isProd then 0 else 2),
                           ''x-powered-by'' \<mapsto> JBool False] \<and>
     stack (app srv) =
       SecurityHeaders isProd H (maxAgeHsts isProd) #
       Logger (Morgan (if truthy isProd then ''combined'' else ''dev'') (\<not> truthy isProd)) #
       (if truthy isProd
        then [RateLimiter \<lparr>windowMs = 60000,
                max_opt = 60 * (case mo of None \<Rightarrow> 5 | Some n \<Rightarrow> n),
                headers_opt = False, handler = Morgan ''rate-limit'' False\<rparr>]
        else [])"
  using assms
  by (simp add: createServer_def useRateLimit_def useLogger_def useSecurityHeaders_def
      useExpressConfig_def express_def app_set_def app_use_def Let_def)

lemma show_nat_year: "show_nat 31536000 = ''31536000''"
  by (simp add: show_nat.simps)

lemma show_nat_zero: "show_nat 0 = ''0''"
  by (simp add: show_nat.simps)

lemma maxAgeHsts_seconds:
  "maxAgeHsts isProd div 1000 = (if truthy isProd then 31536000 else 0)"
  by (simp add: maxAgeHsts_def)

text \<open>
  Claim C1. The first middleware of the application returned by \<open>createServer\<close> is the
  security-header closure for the canonical host \<open>H\<close>. On a request it leaves the
  server state alone and: when \<open>isProd\<close> holds, the method is GET, and the protocol is
  not \<open>https\<close> or the hostname is not \<open>H\<close>, the response is the framework's redirect
  with status 301 to the target \<open>https://\<close> followed by \<open>H\<close> and the request URL, and
  \<open>next\<close> is not called; in every other case (so always when \<open>isProd\<close> is false) it
  calls \<open>next\<close> and leaves the status, the \<open>Location\<close> header, the body and the open
  response as they were.
\<close>

theorem security_redirect:
  assumes "\<not> nullish isProd"
  shows "\<exists>srv g' rest.
     createServer isProd H mo g = (Inr srv, g') \<and>
     stack (app srv) = SecurityHeaders isProd H (maxAgeHsts isProd) # rest \<and>
     (case run_middleware redirect (SecurityHeaders isProd H (maxAgeHsts isProd)) now req res st of
        ((res', c), st') \<Rightarrow>
          st' = st \<and>
          (if truthy isProd \<and> method_req req = ''GET'' \<and>
              (protocol req \<noteq> ''https'' \<or> hostname req \<noteq> H)
           then c = Ended \<and> res' = redirect req 301 (''https://'' @ H @ url req) res
           else c = Next \<and> statusCode res' = statusCode res \<and>
                headers res' ''Location'' = headers res ''Location'' \<and>
                body res' = body res \<and> finished res' = finished res))"
proof -
  from createServer_result [OF assms, of H mo g]
  obtain srv g' where "createServer isProd H mo g = (Inr srv, g')"
    and "\<exists>rest. stack (app srv) = SecurityHeaders isProd H (maxAgeHsts isProd) # rest"
    by auto
  then show ?thesis
    by (auto simp: securityHeaders_def header_def)
qed

text \<open>
  A plain-http GET to a non-canonical host of a production server, whatever the
  framework's redirect writes.
\<close>

theorem security_redirect_witness:
  "\<not> nullish (JBool True) \<and>
   (\<exists>srv g' rest.
      createServer (JBool True) ''feross.org'' None initial_globals = (Inr srv, g') \<and>
      stack (app srv) = SecurityHeaders (JBool True) ''feross.org'' 31536000000 # rest) \<and>
   (\<forall>redirect.
      run_middleware redirect (SecurityHeaders (JBool True) ''feross.org'' 31536000000) 0
        \<lparr>method_req = ''GET'', protocol = ''http'', hostname = ''www.feross.org'',
         url = ''/100%'', ip = ''10.0.0.1''\<rparr> new_response initial_state =
      ((redirect
          \<lparr>method_req = ''GET'', protocol = ''http'', hostname = ''www.feross.org'',
           url = ''/100%'', ip = ''10.0.0.1''\<rparr>
          301 ''https://feross.org/100%'' new_response, Ended), initial_state))"
proof -
  have h: "\<not> nullish (JBool True)" by simp
  have m: "maxAgeHsts (JBool True) = 31536000000" by (simp add: maxAgeHsts_def)
  from security_redirect [OF h, where H = "''feross.org''" and mo = None
      and g = initial_globals and now = 0 and res = new_response and st = initial_state
      and req = "\<lparr>method_req = ''GET'', protocol = ''http'', hostname = ''www.feross.org'',
        url = ''/100%'', ip = ''10.0.0.1''\<rparr>"]
  show ?thesis
    unfolding m
    by (auto simp: securityHeaders_def)
qed

text \<open>
  Claim C2. On every request it does not redirect, the security-header middleware
  installed by \<open>createServer\<close> sets \<open>Strict-Transport-Security\<close> to
  \<open>max-age=0; includeSubDomains; preload\<close> when \<open>isProd\<close> is false and to
  \<open>max-age=31536000; includeSubDomains; preload\<close> when it is true (the millisecond
  constant 31536000000 divided by 1000), sets \<open>X-Content-Type-Options\<close> to
  \<open>nosniff\<close>, and calls \<open>next\<close>.
\<close>

theorem hsts_header:
  assumes "\<not> nullish isProd"
    and "\<not> (truthy isProd \<and> method_req req = ''GET'' \<and>
            (protocol req \<noteq> ''https'' \<or> hostname req \<noteq> H))"
  shows "\<exists>srv g' rest.
     createServer isProd H mo g = (Inr srv, g') \<and>
     stack (app srv) = SecurityHeaders isProd H (maxAgeHsts isProd) # rest \<and>
     maxAgeHsts isProd = (if truthy isProd then 31536000000 else 0) \<and>
     maxAgeHsts isProd div 1000 = (if truthy isProd then 31536000 else 0) \<and>
     (case securityHeaders redirect isProd H (maxAgeHsts isProd) req res of
        (res', c) \<Rightarrow>
          c = Next \<and>
          headers res' ''Strict-Transport-Security'' =
            Some (if truthy isProd then ''max-age=31536000; includeSubDomains; preload''
                  else ''max-age=0; includeSubDomains; preload'') \<and>
          headers res' ''X-Content-Type-Options'' = Some ''nosniff'' \<and>
          statusCode res' = statusCode res \<and> body res' = body res \<and>
          finished res' = finished res)"
proof -
  from createServer_result [OF assms(1), of H mo g]
  obtain srv g' rest where c: "createServer isProd H mo g = (Inr srv, g')"
    and s: "stack (app srv) = SecurityHeaders isProd H (maxAgeHsts isProd) # rest"
    by auto
  have m: "maxAgeHsts isProd = (if truthy isProd then 31536000000 else 0)"
    by (simp add: maxAgeHsts_def)
  have b: "case securityHeaders redirect isProd H (maxAgeHsts isProd) req res of
        (res', c) \<Rightarrow>
          c = Next \<and>
          headers res' ''Strict-Transport-Security'' =
            Some (if truthy isProd then ''max-age=31536000; includeSubDomains; preload''
                  else ''max-age=0; includeSubDomains; preload'') \<and>
          headers res' ''X-Content-Type-Options'' = Some ''nosniff'' \<and>
          statusCode res' = statusCode res \<and> body res' = body res \<and>
          finished res' = finished res"
    using assms(2)
    by (simp add: securityHeaders_def header_def maxAgeHsts_seconds show_nat_year
        show_nat_zero)
  show ?thesis
    by (intro exI conjI) (rule c s m b maxAgeHsts_seconds)+
qed

text \<open>A GET to a development server.\<close>

theorem hsts_header_witness:
  "\<not> nullish (JBool False) \<and>
   \<not> (truthy (JBool False) \<and> ''GET'' = ''GET'' \<and>
        (''http'' \<noteq> ''https'' \<or> ''localhost'' \<noteq> ''feross.org'')) \<and>
   (\<forall>redirect.
      securityHeaders redirect (JBool False) ''feross.org'' (maxAgeHsts (JBool False))
        \<lparr>method_req = ''GET'', protocol = ''http'', hostname = ''localhost'',
         url = ''/'', ip = ''127.0.0.1''\<rparr> new_response =
      (\<lparr>statusCode = 200,
        headers = [''Strict-Transport-Security'' \<mapsto> ''max-age=0; includeSubDomains; preload'',
                   ''X-Content-Type-Options'' \<mapsto> ''nosniff''],
        body = None, finished = False\<rparr>, Next))"
proof -
  have h: "\<not> nullish (JBool False)" by simp
  have r: "\<not> (truthy (JBool False) \<and>
      method_req \<lparr>method_req = ''GET'', protocol = ''http'', hostname = ''localhost'',
              url = ''/'', ip = ''127.0.0.1''\<rparr> = ''GET'' \<and>
      (protocol \<lparr>method_req = ''GET'', protocol = ''http'', hostname = ''localhost'',
                 url = ''/'', ip = ''127.0.0.1''\<rparr> \<noteq> ''https'' \<or>
       hostname \<lparr>method_req = ''GET'', protocol = ''http'', hostname = ''localhost'',
                 url = ''/'', ip = ''127.0.0.1''\<rparr> \<noteq> ''feross.org''))" by simp
  from hsts_header [OF h r, where mo = None and g = initial_globals and res = new_response]
  show ?thesis
    by (auto simp: securityHeaders_def header_def new_response_def maxAgeHsts_def
        show_nat_zero)
qed

text \<open>
  Claim C9. The application returned by \<open>createServer\<close> has \<open>trust proxy\<close> set to
  true, \<open>x-powered-by\<close> set to false, and \<open>json spaces\<close> set to 0 when \<open>isProd\<close>
  holds and to 2 otherwise.
\<close>

theorem express_settings:
  assumes "\<not> nullish isProd"
  shows "\<exists>srv g'.
     createServer isProd H mo g = (Inr srv, g') \<and>
     settings (app srv) ''trust proxy'' = Some (JBool True) \<and>
     settings (app srv) ''x-powered-by'' = Some (JBool False) \<and>
     settings (app srv) ''json spaces'' = Some (JNum (if truthy isProd then 0 else 2))"
proof -
  from createServer_result [OF assms, of H mo g]
  obtain srv g' where c: "createServer isProd H mo g = (Inr srv, g')"
    and s: "settings (app srv) = [''trust proxy'' \<mapsto> JBool True,
              ''json spaces'' \<mapsto> JNum (if truthy isProd then 0 else 2),
              ''x-powered-by'' \<mapsto> JBool False]"
    by auto
  show ?thesis
    using c by (simp add: s)
qed

text \<open>A production server.\<close>

theorem express_settings_witness:
  "\<not> nullish (JBool True) \<and>
   (\<exists>srv g'.
     createServer (JBool True) ''feross.org'' (Some 10) initial_globals = (Inr srv, g') \<and>
     settings (app srv) ''trust proxy'' = Some (JBool True) \<and>
     settings (app srv) ''x-powered-by'' = Some (JBool False) \<and>
     settings (app srv) ''json spaces'' = Some (JNum 0))"
proof -
  have h: "\<not> nullish (JBool True)" by simp
  from express_settings [OF h, where H = "''feross.org''" and mo = "Some 10"
      and g = initial_globals]
  show ?thesis by simp
qed

section \<open>The required environment flag\<close>

text \<open>
  Claim C3. Called with \<open>isProd\<close> absent (\<open>undefined\<close> or \<open>null\<close>, or for
  \<open>serveStatic\<close> no such property at all), each of \<open>createServer\<close>, \<open>createRollbar\<close>
  and \<open>serveStatic\<close> throws the error \<open>Missing `isProd` option\<close> and leaves the
  process-wide state as it was: no application is built, nothing is registered, and
  \<open>express.static\<close> is not reached. With \<open>isProd = false\<close> the flag is accepted:
  \<open>createServer\<close> and \<open>createRollbar\<close> return, and \<open>serveStatic\<close> hands the path and
  the options to \<open>express.static\<close> and returns the middleware that returns (only an
  error of \<open>express.static\<close> itself, as on an empty path, can come out of it).
\<close>

theorem missing_isProd_throws:
  assumes "nullish isProd"
  shows "createServer isProd H mo g = (Inl (Error ''Missing `isProd` option''), g) \<and>
     createRollbar tok isProd g = (Inl (Error ''Missing `isProd` option''), g) \<and>
     serveStatic express_static path (opts(''isProd'' \<mapsto> isProd)) =
       Inl (Error ''Missing `isProd` option'') \<and>
     serveStatic express_static path (opts(''isProd'' := None)) =
       Inl (Error ''Missing `isProd` option'') \<and>
     (\<exists>srv g'. createServer (JBool False) H mo g = (Inr srv, g')) \<and>
     createRollbar tok (JBool False) g = (Inr (), g) \<and>
     serveStatic express_static path (opts(''isProd'' \<mapsto> JBool False)) =
       express_static path ([''maxAge'' \<mapsto> JNum 0] ++ opts(''isProd'' := None)) \<and>
     (\<forall>mw. express_static path ([''maxAge'' \<mapsto> JNum 0] ++ opts(''isProd'' := None)) = Inr mw
        \<longrightarrow> serveStatic express_static path (opts(''isProd'' \<mapsto> JBool False)) = Inr mw)"
  using assms createServer_result [of "JBool False" H mo g]
  by (auto simp: createServer_def createRollbar_def serveStatic_def maxAgeStatic_def)

text \<open>
  The three entry points called with \<open>isProd\<close> undefined, and \<open>serveStatic\<close> called with
  \<open>isProd = false\<close>, with an \<open>express.static\<close> that rejects the empty path.
\<close>

theorem missing_isProd_throws_witness:
  "nullish JUndefined \<and>
   createServer JUndefined ''feross.org'' None initial_globals =
     (Inl (Error ''Missing `isProd` option''), initial_globals) \<and>
   createRollbar (JStr ''token'') JUndefined initial_globals =
     (Inl (Error ''Missing `isProd` option''), initial_globals) \<and>
   serveStatic (\<lambda>root options. if root = [] then Inl (TypeError ''root path required'')
                      else Inr (Static root options)) ''static'' (Map.empty(''isProd'' \<mapsto> JUndefined)) =
     Inl (Error ''Missing `isProd` option'') \<and>
   serveStatic (\<lambda>root options. if root = [] then Inl (TypeError ''root path required'')
                      else Inr (Static root options)) ''static'' (Map.empty(''isProd'' := None)) =
     Inl (Error ''Missing `isProd` option'') \<and>
   serveStatic (\<lambda>root options. if root = [] then Inl (TypeError ''root path required'')
                      else Inr (Static root options)) ''static'' (Map.empty(''isProd'' \<mapsto> JBool False)) =
     Inr (Static ''static'' ([''maxAge'' \<mapsto> JNum 0] ++ Map.empty(''isProd'' := None)))"
proof -
  have h: "nullish JUndefined" by simp
  from missing_isProd_throws [OF h, where H = "''feross.org''" and mo = None
      and g = initial_globals and tok = "JStr ''token''" and path = "''static''"
      and opts = Map.empty
      and express_static = "(\<lambda>root options. if root = [] then Inl (TypeError ''root path required'')
                      else Inr (Static root options))"]
  show ?thesis using h by simp
qed

section \<open>Properties of serveStatic\<close>

text \<open>
  Claim C5. \<open>serveStatic\<close> returns what \<open>express.static\<close> returns for the given path
  and an options object whose \<open>maxAge\<close> is the caller's when the caller's options carry
  one, and otherwise 0 when \<open>isProd\<close> is false and 31536000000 when it is true;
  \<open>isProd\<close> itself is not passed on, and every other option is passed on unchanged.
\<close>

theorem static_maxAge:
  assumes "options ''isProd'' = Some (JBool p)"
  shows "\<exists>opts'.
     serveStatic express_static path options = express_static path opts' \<and>
     opts' = [''maxAge'' \<mapsto> JNum (if p then 31536000000 else 0)] ++
               options(''isProd'' := None) \<and>
     opts' ''maxAge'' =
       (case options ''maxAge'' of
          None \<Rightarrow> Some (JNum (if p then 31536000000 else 0))
        | Some v \<Rightarrow> Some v) \<and>
     opts' ''isProd'' = None \<and>
     (\<forall>k. k \<noteq> ''maxAge'' \<and> k \<noteq> ''isProd'' \<longrightarrow> opts' k = options k)"
proof -
  have m: "int (maxAgeStatic (JBool p)) = (if p then 31536000000 else 0)"
    by (simp add: maxAgeStatic_def)
  have e: "serveStatic express_static path options =
      express_static path ([''maxAge'' \<mapsto> JNum (if p then 31536000000 else 0)] ++
        options(''isProd'' := None))"
    using assms by (simp add: serveStatic_def m)
  show ?thesis
    unfolding e by (auto simp: map_add_def split: option.splits)
qed

text \<open>
  A production call with and without an explicit \<open>maxAge\<close>, with an \<open>express.static\<close>
  that rejects the empty path.
\<close>

theorem static_maxAge_witness:
  "[''isProd'' \<mapsto> JBool True, ''maxAge'' \<mapsto> JNum 1000] ''isProd'' = Some (JBool True) \<and>
   (\<exists>opts'.
     serveStatic (\<lambda>root options. if root = [] then Inl (TypeError ''root path required'')
                      else Inr (Static root options)) ''static'' [''isProd'' \<mapsto> JBool True, ''maxAge'' \<mapsto> JNum 1000] =
       Inr (Static ''static'' opts') \<and>
     opts' ''maxAge'' = Some (JNum 1000) \<and> opts' ''isProd'' = None) \<and>
   [''isProd'' \<mapsto> JBool True] ''isProd'' = Some (JBool True) \<and>
   (\<exists>opts'.
     serveStatic (\<lambda>root options. if root = [] then Inl (TypeError ''root path required'')
                      else Inr (Static root options)) ''static'' [''isProd'' \<mapsto> JBool True] = Inr (Static ''static'' opts') \<and>
     opts' ''maxAge'' = Some (JNum 31536000000)) \<and>
   serveStatic (\<lambda>root options. if root = [] then Inl (TypeError ''root path required'')
                      else Inr (Static root options)) [] [''isProd'' \<mapsto> JBool True] = Inl (TypeError ''root path required'')"
proof -
  have h1: "[''isProd'' \<mapsto> JBool True, ''maxAge'' \<mapsto> JNum 1000] ''isProd'' = Some (JBool True)"
    by simp
  have h2: "[''isProd'' \<mapsto> JBool True] ''isProd'' = Some (JBool True)"
    by simp
  from static_maxAge [where options = "[''isProd'' \<mapsto> JBool True, ''maxAge'' \<mapsto> JNum 1000]"
      and p = True and path = "''static''"
      and express_static = "(\<lambda>root options. if root = [] then Inl (TypeError ''root path required'')
                      else Inr (Static root options))"]
    static_maxAge [where options = "[''isProd'' \<mapsto> JBool True]" and p = True
      and path = "''static''"
      and express_static = "(\<lambda>root options. if root = [] then Inl (TypeError ''root path required'')
                      else Inr (Static root options))"]
    static_maxAge [where options = "[''isProd'' \<mapsto> JBool True]" and p = True
      and path = "[]"
      and express_static = "(\<lambda>root options. if root = [] then Inl (TypeError ''root path required'')
                      else Inr (Static root options))"]
    h1 h2
  show ?thesis by auto
qed

section \<open>Properties of the error-reporter bridge\<close>

text \<open>
  Claim C6. \<open>checkIgnore\<close> returns false whenever \<open>isUncaught\<close> is true, whatever the
  arguments; when \<open>isUncaught\<close> is false and the error's \<open>status\<close> is \<open>s\<close>, it returns
  true exactly when \<open>s\<close> is one of the numbers 400, 403, 404, 412, 416.
\<close>

theorem checkIgnore_statuses:
  "checkIgnore (JBool True) args = Inr False \<and>
   (get_prop (index args 0) ''status'' = Inr s \<longrightarrow>
      checkIgnore (JBool False) args =
        Inr (s \<in> {JNum 400, JNum 403, JNum 404, JNum 412, JNum 416}))"
  by (simp add: checkIgnore_def)

text \<open>An error with status 404, one with status 500, and an uncaught one.\<close>

theorem checkIgnore_statuses_witness:
  "get_prop (index [JObj True [(''status'', JNum 404)]] 0) ''status'' = Inr (JNum 404) \<and>
   checkIgnore (JBool False) [JObj True [(''status'', JNum 404)]] = Inr True \<and>
   get_prop (index [JObj True [(''status'', JNum 500)]] 0) ''status'' = Inr (JNum 500) \<and>
   checkIgnore (JBool False) [JObj True [(''status'', JNum 500)]] = Inr False \<and>
   checkIgnore (JBool True) [JObj True [(''status'', JNum 404)]] = Inr False"
proof -
  have h1: "get_prop (index [JObj True [(''status'', JNum 404)]] 0) ''status'' = Inr (JNum 404)"
    by (simp add: index_def)
  have h2: "get_prop (index [JObj True [(''status'', JNum 500)]] 0) ''status'' = Inr (JNum 500)"
    by (simp add: index_def)
  from checkIgnore_statuses [where args = "[JObj True [(''status'', JNum 404)]]" and s = "JNum 404"]
    checkIgnore_statuses [where args = "[JObj True [(''status'', JNum 500)]]" and s = "JNum 500"]
    h1 h2
  show ?thesis by simp
qed

text \<open>
  Claim C10. With \<open>isUncaught\<close> false, \<open>checkIgnore\<close> reads \<open>status\<close> of the first
  argument: on an empty argument array it throws a TypeError, and it returns a boolean
  exactly when the array is non-empty and its first element is neither \<open>undefined\<close>
  nor \<open>null\<close>.
\<close>

theorem checkIgnore_absent_error:
  "checkIgnore (JBool False) [] = Inl (TypeError ''Cannot read properties of undefined'') \<and>
   ((\<exists>b. checkIgnore (JBool False) args = Inr b) = (args \<noteq> [] \<and> \<not> nullish (hd args))) \<and>
   ((\<exists>e. checkIgnore (JBool False) args = Inl e) = (args = [] \<or> nullish (hd args)))"
proof (cases args)
  case Nil
  then show ?thesis
    by (simp add: checkIgnore_def index_def)
next
  case (Cons x xs)
  then show ?thesis
    by (cases x) (auto simp: checkIgnore_def index_def)
qed

section \<open>Properties of runMiddleware\<close>

text \<open>A settled promise stays as it is, whatever the middleware does afterwards.\<close>

lemma run_actions_settled: "p \<noteq> Pending \<Longrightarrow> run_actions as p = p"
proof (induction as arbitrary: p)
  case Nil
  then show ?case by simp
next
  case (Cons a as)
  then show ?case
    by (cases a; cases p) simp_all
qed

text \<open>
  Claim C7. When the middleware \<open>fn\<close> invokes its completion callback with a value
  \<open>v\<close>, the promise returned by \<open>runMiddleware\<close> is rejected with \<open>v\<close> if \<open>v\<close> is an
  instance of \<open>Error\<close>, and fulfilled with \<open>v\<close> otherwise (with \<open>undefined\<close> when the
  callback was called with no value); whatever \<open>fn\<close> does after that changes nothing.
\<close>

theorem runMiddleware_settles:
  assumes "fn req res = Call v # rest"
  shows "runMiddleware req res fn = (if instanceof_Error v then Rejected v else Fulfilled v)"
  using assms by (simp add: runMiddleware_def run_actions_settled)

text \<open>A callback called with an error, with nothing, and with a falsy value.\<close>

theorem runMiddleware_settles_witness:
  "runMiddleware
     \<lparr>method_req = ''GET'', protocol = ''https'', hostname = ''feross.org'',
       url = ''/'', ip = ''10.0.0.1''\<rparr> new_response
     (\<lambda>req res. [Call (JObj True [(''message'', JStr ''boom'')]), Call (JNum 1)]) =
     Rejected (JObj True [(''message'', JStr ''boom'')]) \<and>
   runMiddleware
     \<lparr>method_req = ''GET'', protocol = ''https'', hostname = ''feross.org'',
       url = ''/'', ip = ''10.0.0.1''\<rparr> new_response
     (\<lambda>req res. [Call JUndefined]) = Fulfilled JUndefined \<and>
   runMiddleware
     \<lparr>method_req = ''GET'', protocol = ''https'', hostname = ''feross.org'',
       url = ''/'', ip = ''10.0.0.1''\<rparr> new_response
     (\<lambda>req res. [Call (JBool False), Throw (JStr ''late'')]) = Fulfilled (JBool False)"
  using
    runMiddleware_settles [where req = "\<lparr>method_req = ''GET'', protocol = ''https'', hostname = ''feross.org'',
       url = ''/'', ip = ''10.0.0.1''\<rparr>"
      and res = new_response
      and fn = "\<lambda>req res. [Call (JObj True [(''message'', JStr ''boom'')]), Call (JNum 1)]"
      and v = "JObj True [(''message'', JStr ''boom'')]" and rest = "[Call (JNum 1)]"]
    runMiddleware_settles [where req = "\<lparr>method_req = ''GET'', protocol = ''https'', hostname = ''feross.org'',
       url = ''/'', ip = ''10.0.0.1''\<rparr>"
      and res = new_response
      and fn = "\<lambda>req res. [Call JUndefined]" and v = JUndefined and rest = "[]"]
    runMiddleware_settles [where req = "\<lparr>method_req = ''GET'', protocol = ''https'', hostname = ''feross.org'',
       url = ''/'', ip = ''10.0.0.1''\<rparr>"
      and res = new_response
      and fn = "\<lambda>req res. [Call (JBool False), Throw (JStr ''late'')]"
      and v = "JBool False" and rest = "[Throw (JStr ''late'')]"]
  by simp

section \<open>Properties of getRollbarHandler\<close>

text \<open>
  Claim C8. While the \<open>globalThis.rollbar\<close> slot is unset, as it is initially and still
  is after \<open>createRollbar\<close> with \<open>isProd = false\<close>, the middleware returned by
  \<open>getRollbarHandler\<close> calls \<open>next\<close> and changes neither the response nor any state;
  when the slot holds a client, as after \<open>createRollbar\<close> with \<open>isProd = true\<close>, the
  result is that client's error handler.
\<close>

theorem rollbar_handler:
  "getRollbarHandler eh initial_globals req res s = ((res, Next), s) \<and>
   getRollbarHandler eh (snd (createRollbar tok (JBool False) initial_globals)) req res s =
     ((res, Next), s) \<and>
   (rollbar g = None \<longrightarrow> getRollbarHandler eh g req res s = ((res, Next), s)) \<and>
   (rollbar g = Some r \<longrightarrow> getRollbarHandler eh g = eh r) \<and>
   (\<exists>c. rollbar (snd (createRollbar tok (JBool True) g)) = Some c \<and>
        accessToken c = tok \<and>
        getRollbarHandler eh (snd (createRollbar tok (JBool True) g)) = eh c)"
  by (simp add: getRollbarHandler_def createRollbar_def initial_globals_def)


text \<open>The handler with the slot unset, and with a client in it.\<close>

theorem rollbar_handler_witness:
  "rollbar initial_globals = None \<and>
   getRollbarHandler (\<lambda>c req res (n::nat). ((status 500 res, Ended), Suc n)) initial_globals
     \<lparr>method_req = ''GET'', protocol = ''https'', hostname = ''feross.org'',
       url = ''/'', ip = ''10.0.0.1''\<rparr> new_response 0 = ((new_response, Next), 0) \<and>
   rollbar \<lparr>rollbar = Some \<lparr>accessToken = JStr ''t'', captureUncaught = True,
                captureUnhandledRejections = True, checkIgnore_opt = checkIgnore\<rparr>,
            morgan_formats = Map.empty\<rparr> =
     Some \<lparr>accessToken = JStr ''t'', captureUncaught = True,
                captureUnhandledRejections = True, checkIgnore_opt = checkIgnore\<rparr> \<and>
   getRollbarHandler (\<lambda>c req res (n::nat). ((status 500 res, Ended), Suc n))
     \<lparr>rollbar = Some \<lparr>accessToken = JStr ''t'', captureUncaught = True,
                captureUnhandledRejections = True, checkIgnore_opt = checkIgnore\<rparr>,
      morgan_formats = Map.empty\<rparr>
     \<lparr>method_req = ''GET'', protocol = ''https'', hostname = ''feross.org'',
       url = ''/'', ip = ''10.0.0.1''\<rparr> new_response 0 = ((status 500 new_response, Ended), 1)"
  using
    rollbar_handler [where g = initial_globals
      and eh = "\<lambda>c req res (n::nat). ((status 500 res, Ended), Suc n)"
      and req = "\<lparr>method_req = ''GET'', protocol = ''https'', hostname = ''feross.org'',
       url = ''/'', ip = ''10.0.0.1''\<rparr>"
      and res = new_response and s = 0]
    rollbar_handler [where g = "\<lparr>rollbar = Some \<lparr>accessToken = JStr ''t'',
                captureUncaught = True, captureUnhandledRejections = True,
                checkIgnore_opt = checkIgnore\<rparr>, morgan_formats = Map.empty\<rparr>"
      and r = "\<lparr>accessToken = JStr ''t'', captureUncaught = True,
                captureUnhandledRejections = True, checkIgnore_opt = checkIgnore\<rparr>"
      and eh = "\<lambda>c req res (n::nat). ((status 500 res, Ended), Suc n)"]
  by (simp add: initial_globals_def)

section \<open>Properties of the rate limiter\<close>

text \<open>
  The production stack on one request: the redirect ends the chain before the logger and
  the limiter see the request; otherwise the limiter decides.
\<close>

lemma handle_prod_stack:
  "handle redirect [SecurityHeaders i H a, Logger (Morgan f imm), RateLimiter opts] now req res st =
     (if truthy i \<and> method_req req = ''GET'' \<and> (protocol req \<noteq> ''https'' \<or> hostname req \<noteq> H)
      then ((redirect req 301 (''https://'' @ H @ url req) res, Ended), st)
      else rateLimit opts now req (fst (securityHeaders redirect i H a req res))
             (st\<lparr>log := log st @ [f]\<rparr>))"
  by (cases "rateLimit opts now req (fst (securityHeaders redirect i H a req res))
             (st\<lparr>log := log st @ [f]\<rparr>)" rule: prod.exhaust[case_product prod.exhaust chain.exhaust])
     (auto simp: securityHeaders_def split: prod.splits chain.splits)


text \<open>One request through the limiter: the store afterwards, and the outcome.\<close>

lemma rateLimit_state:
  assumes "windowMs opts = 60000" and "now div 60000 = w"
  shows "window (snd (rateLimit opts now req res st)) = w \<and>
     hits (snd (rateLimit opts now req res st)) k =
       (if window st = w then hits st k else 0) + (if ip req = k then 1 else 0)"
  using assms
  by (cases "handler opts")
     (auto simp: rateLimit_def rateLimit_handler_def Let_def split: prod.splits)

lemma rateLimit_outcome:
  assumes "windowMs opts = 60000" and "\<not> headers_opt opts"
  shows "fst (rateLimit opts now req res st) =
     (if max_opt opts < Suc (if window st = now div 60000 then hits st (ip req) else 0)
      then (send ''Blocked for too many requests'' (status 503 res), Ended)
      else (res, Next))"
  using assms
  by (cases "handler opts")
     (auto simp: rateLimit_def rateLimit_handler_def Let_def split: prod.splits)

text \<open>
  After a run of requests that all fall into window \<open>w\<close>, the hits a source has in
  window \<open>w\<close> are those it had plus its requests that reached the limiter.
\<close>

lemma serve_hits:
  assumes "windowMs opts = 60000"
    and "\<forall>(t, r) \<in> set rs. t div 60000 = w"
  shows "(let st' = serve redirect [SecurityHeaders i H a, Logger (Morgan f imm), RateLimiter opts] rs st
          in if window st' = w then hits st' k else 0) =
     (if window st = w then hits st k else 0) +
     length (filter (\<lambda>(t, r). ip r = k \<and>
        \<not> (truthy i \<and> method_req r = ''GET'' \<and> (protocol r \<noteq> ''https'' \<or> hostname r \<noteq> H))) rs)"
  using assms(2)
proof (induction rs arbitrary: st)
  case Nil
  then show ?case by simp
next
  case (Cons x rs)
  obtain t r where x: "x = (t, r)" by (cases x)
  from Cons.prems x have t: "t div 60000 = w" and rest: "\<forall>(t, r) \<in> set rs. t div 60000 = w"
    by auto
  let ?S = "[SecurityHeaders i H a, Logger (Morgan f imm), RateLimiter opts]"
  let ?st1 = "snd (handle redirect ?S t r new_response st)"
  have step: "(if window ?st1 = w then hits ?st1 k else 0) =
      (if window st = w then hits st k else 0) +
      (if ip r = k \<and> \<not> (truthy i \<and> method_req r = ''GET'' \<and>
            (protocol r \<noteq> ''https'' \<or> hostname r \<noteq> H)) then 1 else 0)"
    using rateLimit_state [OF assms(1) t, of r
        "fst (securityHeaders redirect i H a r new_response)" "st\<lparr>log := log st @ [f]\<rparr>"]
    by (simp add: handle_prod_stack del: handle.simps)
  from Cons.IH [OF rest, of ?st1] step x
  show ?case by (simp add: Let_def del: handle.simps)
qed


text \<open>The development stack never ends the chain.\<close>

lemma handle_dev_stack:
  assumes "\<not> truthy i"
  shows "fst (handle redirect [SecurityHeaders i H a, Logger l] now req res st) =
     (fst (securityHeaders redirect i H a req res), Next)"
  using assms by (simp add: securityHeaders_def)

lemma securityHeaders_pass:
  assumes "\<not> (truthy i \<and> method_req req = ''GET'' \<and>
            (protocol req \<noteq> ''https'' \<or> hostname req \<noteq> H))"
  shows "statusCode (fst (securityHeaders redirect i H a req new_response)) = 200 \<and>
     body (fst (securityHeaders redirect i H a req new_response)) = None \<and>
     \<not> finished (fst (securityHeaders redirect i H a req new_response)) \<and>
     headers (fst (securityHeaders redirect i H a req new_response)) ''X-RateLimit-Limit'' = None \<and>
     headers (fst (securityHeaders redirect i H a req new_response)) ''X-RateLimit-Remaining'' = None"
  using assms by (auto simp: securityHeaders_def header_def new_response_def)

lemma handle_prod_outcome:
  assumes "windowMs opts = 60000" and "\<not> headers_opt opts"
    and "\<forall>(t, r) \<in> set rs. t div 60000 = now div 60000"
    and "\<not> (truthy i \<and> method_req req = ''GET'' \<and>
            (protocol req \<noteq> ''https'' \<or> hostname req \<noteq> H))"
  shows "fst (handle redirect [SecurityHeaders i H a, Logger (Morgan f imm), RateLimiter opts] now req
            new_response
            (serve redirect [SecurityHeaders i H a, Logger (Morgan f imm), RateLimiter opts] rs st)) =
     (if max_opt opts <
           Suc ((if window st = now div 60000 then hits st (ip req) else 0) +
             length (filter (\<lambda>(t, r). ip r = ip req \<and>
               \<not> (truthy i \<and> method_req r = ''GET'' \<and>
                    (protocol r \<noteq> ''https'' \<or> hostname r \<noteq> H))) rs))
      then (send ''Blocked for too many requests''
              (status 503 (fst (securityHeaders redirect i H a req new_response))), Ended)
      else (fst (securityHeaders redirect i H a req new_response), Next))"
proof -
  let ?S = "[SecurityHeaders i H a, Logger (Morgan f imm), RateLimiter opts]"
  let ?st = "serve redirect ?S rs st"
  have "fst (handle redirect ?S now req new_response ?st) =
      fst (rateLimit opts now req (fst (securityHeaders redirect i H a req new_response))
             (?st\<lparr>log := log ?st @ [f]\<rparr>))"
    using assms(4) by (auto simp: handle_prod_stack simp del: handle.simps)
  also have "\<dots> =
      (if max_opt opts < Suc (if window ?st = now div 60000 then hits ?st (ip req) else 0)
       then (send ''Blocked for too many requests''
               (status 503 (fst (securityHeaders redirect i H a req new_response))), Ended)
       else (fst (securityHeaders redirect i H a req new_response), Next))"
    by (simp add: rateLimit_outcome [OF assms(1,2)])
  finally show ?thesis
    using serve_hits [OF assms(1,3), where i = i and H = H and a = a and f = f
        and imm = imm and st = st and k = "ip req" and redirect = redirect]
    by (simp add: Let_def)
qed

text \<open>
  Claim C4. When \<open>isProd\<close> is false the application returned by \<open>createServer\<close> has no
  rate limiter in its stack, and after any run of requests a request is answered with
  status 200 and handed on. When \<open>isProd\<close> is true the stack ends with the rate limiter,
  configured with a window of 60000 ms, a ceiling of 60 times \<open>maxRequestsPerSecond\<close>
  (5 when absent, so 300) and no counter headers; for a request that is not redirected,
  arriving after a run of requests of the same window, with \<open>n\<close> the hits of its source
  in that window so far: if \<open>n + 1\<close> exceeds the ceiling the answer is 503 with body
  \<open>Blocked for too many requests\<close> and the chain ends, otherwise the request is handed
  on with status 200; in both cases no rate-limit counter header is set.
\<close>

theorem rate_limit_ceiling:
  assumes "\<not> nullish isProd"
  shows "\<exists>srv g'.
     createServer isProd H mo g = (Inr srv, g') \<and>
     (if truthy isProd
      then
        (\<exists>sec lg opts.
           stack (app srv) = [sec, lg, RateLimiter opts] \<and> windowMs opts = 60000 \<and>
           max_opt opts = 60 * (case mo of None \<Rightarrow> 5 | Some m \<Rightarrow> m) \<and>
           \<not> headers_opt opts) \<and>
        ((\<forall>(t, r) \<in> set rs. t div 60000 = now div 60000) \<and>
         \<not> (method_req req = ''GET'' \<and> (protocol req \<noteq> ''https'' \<or> hostname req \<noteq> H)) \<longrightarrow>
         (case fst (handle redirect (stack (app srv)) now req new_response
                      (serve redirect (stack (app srv)) rs st)) of
            (res', c) \<Rightarrow>
              headers res' ''X-RateLimit-Limit'' = None \<and>
              headers res' ''X-RateLimit-Remaining'' = None \<and>
              (if 60 * (case mo of None \<Rightarrow> 5 | Some m \<Rightarrow> m) <
                    Suc ((if window st = now div 60000 then hits st (ip req) else 0) +
                      length (filter (\<lambda>(t, r). ip r = ip req \<and>
                        \<not> (method_req r = ''GET'' \<and>
                             (protocol r \<noteq> ''https'' \<or> hostname r \<noteq> H))) rs))
               then c = Ended \<and> statusCode res' = 503 \<and>
                    body res' = Some ''Blocked for too many requests'' \<and> finished res'
               else c = Next \<and> statusCode res' = 200 \<and> body res' = None \<and>
                    \<not> finished res')))
      else
        (\<forall>mw \<in> set (stack (app srv)). \<forall>opts. mw \<noteq> RateLimiter opts) \<and>
        (case fst (handle redirect (stack (app srv)) now req new_response
                     (serve redirect (stack (app srv)) rs st)) of
           (res', c) \<Rightarrow>
             c = Next \<and> statusCode res' = 200 \<and> body res' = None \<and> \<not> finished res'))"
proof -
  from createServer_result [OF assms, of H mo g]
  obtain srv g' where c: "createServer isProd H mo g = (Inr srv, g')"
    and s: "stack (app srv) =
       SecurityHeaders isProd H (maxAgeHsts isProd) #
       Logger (Morgan (if truthy isProd then ''combined'' else ''dev'') (\<not> truthy isProd)) #
       (if truthy isProd
        then [RateLimiter \<lparr>windowMs = 60000,
                max_opt = 60 * (case mo of None \<Rightarrow> 5 | Some n \<Rightarrow> n),
                headers_opt = False, handler = Morgan ''rate-limit'' False\<rparr>]
        else [])"
    by auto
  show ?thesis
  proof (cases "truthy isProd")
    case True
    let ?opts = "\<lparr>windowMs = 60000, max_opt = 60 * (case mo of None \<Rightarrow> 5 | Some n \<Rightarrow> n),
                headers_opt = False, handler = Morgan ''rate-limit'' False\<rparr>"
    have s': "stack (app srv) =
        [SecurityHeaders isProd H (maxAgeHsts isProd), Logger (Morgan ''combined'' False),
         RateLimiter ?opts]"
      using s True by simp
    have "(\<forall>(t, r) \<in> set rs. t div 60000 = now div 60000) \<and>
         \<not> (method_req req = ''GET'' \<and> (protocol req \<noteq> ''https'' \<or> hostname req \<noteq> H)) \<longrightarrow>
         (case fst (handle redirect (stack (app srv)) now req new_response
                      (serve redirect (stack (app srv)) rs st)) of
            (res', c) \<Rightarrow>
              headers res' ''X-RateLimit-Limit'' = None \<and>
              headers res' ''X-RateLimit-Remaining'' = None \<and>
              (if 60 * (case mo of None \<Rightarrow> 5 | Some m \<Rightarrow> m) <
                    Suc ((if window st = now div 60000 then hits st (ip req) else 0) +
                      length (filter (\<lambda>(t, r). ip r = ip req \<and>
                        \<not> (method_req r = ''GET'' \<and>
                             (protocol r \<noteq> ''https'' \<or> hostname r \<noteq> H))) rs))
               then c = Ended \<and> statusCode res' = 503 \<and>
                    body res' = Some ''Blocked for too many requests'' \<and> finished res'
               else c = Next \<and> statusCode res' = 200 \<and> body res' = None \<and>
                    \<not> finished res'))"
    proof (intro impI, elim conjE)
      assume w: "\<forall>(t, r) \<in> set rs. t div 60000 = now div 60000"
        and p: "\<not> (method_req req = ''GET'' \<and> (protocol req \<noteq> ''https'' \<or> hostname req \<noteq> H))"
      from p have p': "\<not> (truthy isProd \<and> method_req req = ''GET'' \<and>
            (protocol req \<noteq> ''https'' \<or> hostname req \<noteq> H))" by simp
      have o: "windowMs ?opts = 60000" "\<not> headers_opt ?opts" by simp_all
      show "case fst (handle redirect (stack (app srv)) now req new_response
                      (serve redirect (stack (app srv)) rs st)) of
            (res', c) \<Rightarrow>
              headers res' ''X-RateLimit-Limit'' = None \<and>
              headers res' ''X-RateLimit-Remaining'' = None \<and>
              (if 60 * (case mo of None \<Rightarrow> 5 | Some m \<Rightarrow> m) <
                    Suc ((if window st = now div 60000 then hits st (ip req) else 0) +
                      length (filter (\<lambda>(t, r). ip r = ip req \<and>
                        \<not> (method_req r = ''GET'' \<and>
                             (protocol r \<noteq> ''https'' \<or> hostname r \<noteq> H))) rs))
               then c = Ended \<and> statusCode res' = 503 \<and>
                    body res' = Some ''Blocked for too many requests'' \<and> finished res'
               else c = Next \<and> statusCode res' = 200 \<and> body res' = None \<and>
                    \<not> finished res')"
        unfolding s' handle_prod_outcome [OF o w p']
        using securityHeaders_pass [OF p', where a = "maxAgeHsts isProd" and redirect = redirect] True
        by (simp add: send_def status_def)
    qed
    then show ?thesis
      using c True s' by simp
  next
    case False
    have s': "stack (app srv) =
        [SecurityHeaders isProd H (maxAgeHsts isProd), Logger (Morgan ''dev'' True)]"
      using s False by simp
    have p': "\<not> (truthy isProd \<and> method_req req = ''GET'' \<and>
            (protocol req \<noteq> ''https'' \<or> hostname req \<noteq> H))"
      using False by simp
    show ?thesis
      using c False securityHeaders_pass [OF p', where a = "maxAgeHsts isProd" and redirect = redirect]
      by (simp add: s' handle_dev_stack del: handle.simps)
  qed
qed


text \<open>
  The default ceiling: after 300 requests of one source in a window the next one is
  blocked, after 299 it is not; a development server hands on the 1001st.
\<close>

theorem rate_limit_ceiling_witness:
  "\<not> nullish (JBool True) \<and>
   (\<forall>redirect. \<exists>srv g'.
      createServer (JBool True) ''feross.org'' None initial_globals = (Inr srv, g') \<and>
      (case fst (handle redirect (stack (app srv)) 59999
                   \<lparr>method_req = ''GET'', protocol = ''https'', hostname = ''feross.org'',
         url = ''/'', ip = ''10.0.0.1''\<rparr>
                   new_response
                   (serve redirect (stack (app srv)) (replicate 300 (0, \<lparr>method_req = ''GET'', protocol = ''https'', hostname = ''feross.org'',
         url = ''/'', ip = ''10.0.0.1''\<rparr>)) initial_state)) of
         (res', c) \<Rightarrow>
           c = Ended \<and> statusCode res' = 503 \<and>
           body res' = Some ''Blocked for too many requests'') \<and>
      (case fst (handle redirect (stack (app srv)) 59999
                   \<lparr>method_req = ''GET'', protocol = ''https'', hostname = ''feross.org'',
         url = ''/'', ip = ''10.0.0.1''\<rparr>
                   new_response
                   (serve redirect (stack (app srv)) (replicate 299 (0, \<lparr>method_req = ''GET'', protocol = ''https'', hostname = ''feross.org'',
         url = ''/'', ip = ''10.0.0.1''\<rparr>)) initial_state)) of
         (res', c) \<Rightarrow> c = Next \<and> statusCode res' = 200 \<and> body res' = None)) \<and>
   \<not> nullish (JBool False) \<and>
   (\<forall>redirect. \<exists>srv g'.
      createServer (JBool False) ''feross.org'' None initial_globals = (Inr srv, g') \<and>
      (\<forall>mw \<in> set (stack (app srv)). \<forall>opts. mw \<noteq> RateLimiter opts) \<and>
      (case fst (handle redirect (stack (app srv)) 59999
                   \<lparr>method_req = ''GET'', protocol = ''https'', hostname = ''feross.org'',
         url = ''/'', ip = ''10.0.0.1''\<rparr>
                   new_response
                   (serve redirect (stack (app srv)) (replicate 1000 (0, \<lparr>method_req = ''GET'', protocol = ''https'', hostname = ''feross.org'',
         url = ''/'', ip = ''10.0.0.1''\<rparr>)) initial_state)) of
         (res', c) \<Rightarrow> c = Next \<and> statusCode res' = 200 \<and> body res' = None))"
  apply (intro conjI allI)
  subgoal by simp
  subgoal for redirect
    using
      rate_limit_ceiling [where isProd = "JBool True" and H = "''feross.org''" and mo = None
        and g = initial_globals and now = 59999 and st = initial_state
        and redirect = redirect
        and req = "\<lparr>method_req = ''GET'', protocol = ''https'', hostname = ''feross.org'',
         url = ''/'', ip = ''10.0.0.1''\<rparr>"
        and rs = "replicate 300 (0, \<lparr>method_req = ''GET'', protocol = ''https'', hostname = ''feross.org'',
         url = ''/'', ip = ''10.0.0.1''\<rparr>)"]
      rate_limit_ceiling [where isProd = "JBool True" and H = "''feross.org''" and mo = None
        and g = initial_globals and now = 59999 and st = initial_state
        and redirect = redirect
        and req = "\<lparr>method_req = ''GET'', protocol = ''https'', hostname = ''feross.org'',
         url = ''/'', ip = ''10.0.0.1''\<rparr>"
        and rs = "replicate 299 (0, \<lparr>method_req = ''GET'', protocol = ''https'', hostname = ''feross.org'',
         url = ''/'', ip = ''10.0.0.1''\<rparr>)"]
    by (auto simp: initial_state_def)
  subgoal by simp
  subgoal for redirect
    using
      rate_limit_ceiling [where isProd = "JBool False" and H = "''feross.org''" and mo = None
        and g = initial_globals and now = 59999 and st = initial_state
        and redirect = redirect
        and req = "\<lparr>method_req = ''GET'', protocol = ''https'', hostname = ''feross.org'',
         url = ''/'', ip = ''10.0.0.1''\<rparr>"
        and rs = "replicate 1000 (0, \<lparr>method_req = ''GET'', protocol = ''https'', hostname = ''feross.org'',
         url = ''/'', ip = ''10.0.0.1''\<rparr>)"]
    by (auto simp: initial_state_def)
  done

end
